theory Spec2Isabelle
  imports Complex_Main
begin

section \<open>Numeric values\<close>

text \<open>
  The arrays of the program hold IEEE-754 doubles. A value is modelled as an exact real
  number or one of the three special values that numpy arithmetic produces instead of
  raising: positive infinity, negative infinity and not-a-number. Rounding, overflow of
  finite results and the sign of zero are not modelled: a finite result is the exact
  real result, and a zero divisor is the positive zero.

  Scalar parameters of the methods (initial values, rates, powers) are finite Python
  floats, modelled as \<^typ>\<open>real\<close>; integers (\<open>n_steps\<close>, boundaries, \<open>i_drop\<close>) are
  Python's unbounded integers, modelled as \<^typ>\<open>int\<close>.
\<close>

datatype npfloat = Fin real | PInf | NInf | NaN

datatype error = ValueError | TypeError | IndexError | ZeroDivisionError | AttributeError

text \<open>The sign of a value that is not NaN: \<open>-1\<close>, \<open>0\<close> or \<open>1\<close>.\<close>

fun fsgn :: "npfloat \<Rightarrow> int" where
  "fsgn (Fin x) = (if x < 0 then - 1 else if x = 0 then 0 else 1)"
| "fsgn PInf = 1"
| "fsgn NInf = - 1"
| "fsgn NaN = 0"

fun fneg :: "npfloat \<Rightarrow> npfloat" where
  "fneg (Fin x) = Fin (- x)"
| "fneg PInf = NInf"
| "fneg NInf = PInf"
| "fneg NaN = NaN"

text \<open>Addition: NaN propagates, and the sum of opposite infinities is NaN.\<close>

fun fadd :: "npfloat \<Rightarrow> npfloat \<Rightarrow> npfloat" where
  "fadd (Fin x) (Fin y) = Fin (x + y)"
| "fadd NaN b = NaN"
| "fadd a NaN = NaN"
| "fadd PInf NInf = NaN"
| "fadd NInf PInf = NaN"
| "fadd PInf b = PInf"
| "fadd NInf b = NInf"
| "fadd (Fin x) b = b"

definition fsub :: "npfloat \<Rightarrow> npfloat \<Rightarrow> npfloat" where
  "fsub a b = fadd a (fneg b)"

text \<open>Multiplication: NaN propagates, and infinity times zero is NaN.\<close>

fun fmul :: "npfloat \<Rightarrow> npfloat \<Rightarrow> npfloat" where
  "fmul (Fin x) (Fin y) = Fin (x * y)"
| "fmul NaN b = NaN"
| "fmul a NaN = NaN"
| "fmul a b =
     (if fsgn a * fsgn b = 0 then NaN else if 0 < fsgn a * fsgn b then PInf else NInf)"

text \<open>
  Division (\<open>np.divide\<close>, and \<open>/\<close> on a numpy scalar): never raises. A finite nonzero
  value over zero is an infinity of the dividend's sign, zero over zero is NaN, a finite
  value over an infinity is zero, and an infinity over an infinity is NaN.
\<close>

fun fdiv :: "npfloat \<Rightarrow> npfloat \<Rightarrow> npfloat" where
  "fdiv (Fin x) (Fin y) =
     (if y \<noteq> 0 then Fin (x / y)
      else if x = 0 then NaN else if 0 < x then PInf else NInf)"
| "fdiv NaN b = NaN"
| "fdiv a NaN = NaN"
| "fdiv (Fin x) b = Fin 0"
| "fdiv a (Fin y) = (if 0 \<le> fsgn a * (if y < 0 then - 1 else 1) then PInf else NInf)"
| "fdiv a b = NaN"

fun np_floor :: "npfloat \<Rightarrow> npfloat" where
  "np_floor (Fin x) = Fin (of_int \<lfloor>x\<rfloor>)"
| "np_floor a = a"

fun np_ceil :: "npfloat \<Rightarrow> npfloat" where
  "np_ceil (Fin x) = Fin (of_int \<lceil>x\<rceil>)"
| "np_ceil a = a"

fun np_cos :: "npfloat \<Rightarrow> npfloat" where
  "np_cos (Fin x) = Fin (cos x)"
| "np_cos a = NaN"

text \<open>\<open>np.minimum\<close> and \<open>np.maximum\<close> propagate NaN.\<close>

fun np_minimum :: "npfloat \<Rightarrow> npfloat \<Rightarrow> npfloat" where
  "np_minimum (Fin x) (Fin y) = Fin (min x y)"
| "np_minimum NaN b = NaN"
| "np_minimum a NaN = NaN"
| "np_minimum NInf b = NInf"
| "np_minimum a NInf = NInf"
| "np_minimum PInf b = b"
| "np_minimum a PInf = a"

fun np_maximum :: "npfloat \<Rightarrow> npfloat \<Rightarrow> npfloat" where
  "np_maximum (Fin x) (Fin y) = Fin (max x y)"
| "np_maximum NaN b = NaN"
| "np_maximum a NaN = NaN"
| "np_maximum PInf b = PInf"
| "np_maximum a PInf = PInf"
| "np_maximum NInf b = b"
| "np_maximum a NInf = a"

definition is_odd_int :: "real \<Rightarrow> bool" where
  "is_odd_int y = (y = of_int \<lfloor>y\<rfloor> \<and> odd \<lfloor>y\<rfloor>)"

text \<open>
  \<open>np.power\<close> on doubles follows C's \<open>pow\<close>: any base to the power zero is one, also a
  NaN base; one to any power is one; otherwise NaN propagates; a negative base with a
  finite exponent that is not an integer gives NaN; zero to a negative power is
  infinity. A finite exponent that is an integer is computed by repeated
  multiplication or division (\<^const>\<open>power_int\<close>), any other by \<^const>\<open>powr\<close>.
\<close>

definition np_power :: "npfloat \<Rightarrow> npfloat \<Rightarrow> npfloat" where
  "np_power a b =
     (if b = Fin 0 then Fin 1
      else if a = Fin 1 then Fin 1
      else case (a, b) of
        (NaN, _) \<Rightarrow> NaN
      | (_, NaN) \<Rightarrow> NaN
      | (Fin x, Fin y) \<Rightarrow>
          if x = 0 then (if 0 < y then Fin 0 else PInf)
          else if y = of_int \<lfloor>y\<rfloor> then Fin (power_int x \<lfloor>y\<rfloor>)
          else if 0 < x then Fin (x powr y)
          else NaN
      | (Fin x, PInf) \<Rightarrow> if \<bar>x\<bar> < 1 then Fin 0 else if \<bar>x\<bar> = 1 then Fin 1 else PInf
      | (Fin x, NInf) \<Rightarrow> if \<bar>x\<bar> < 1 then PInf else if \<bar>x\<bar> = 1 then Fin 1 else Fin 0
      | (PInf, Fin y) \<Rightarrow> if y < 0 then Fin 0 else PInf
      | (PInf, PInf) \<Rightarrow> PInf
      | (PInf, NInf) \<Rightarrow> Fin 0
      | (NInf, Fin y) \<Rightarrow> if y < 0 then Fin 0 else if is_odd_int y then NInf else PInf
      | (NInf, PInf) \<Rightarrow> PInf
      | (NInf, NInf) \<Rightarrow> Fin 0)"

text \<open>The order \<open>\<le>\<close> of doubles: every comparison with NaN is false.\<close>

fun fle :: "npfloat \<Rightarrow> npfloat \<Rightarrow> bool" where
  "fle (Fin x) (Fin y) = (x \<le> y)"
| "fle NaN b = False"
| "fle a NaN = False"
| "fle NInf b = True"
| "fle a PInf = True"
| "fle a b = False"

section \<open>numpy array primitives\<close>

text \<open>
  \<open>np.linspace(start, stop, num)\<close> with the default \<open>endpoint=True\<close>: a negative
  \<open>num\<close> raises ValueError; otherwise the result has \<open>num\<close> elements
  \<open>i * step + start\<close> with \<open>step = (stop - start) / (num - 1)\<close>, the last one then
  overwritten with \<open>stop\<close> when \<open>num > 1\<close>. With \<open>num = 1\<close> there is no step and the
  only element is \<open>0 * (stop - start) + start\<close>.
\<close>

definition np_linspace :: "real \<Rightarrow> real \<Rightarrow> int \<Rightarrow> error + npfloat list" where
  "np_linspace start stop num =
     (if num < 0 then Inl ValueError
      else
        let dv = num - 1;
            delta = stop - start;
            y = map real [0..<nat num];
            y = (if 0 < dv then map (\<lambda>v. v * (delta / real_of_int dv) + start) y
                 else map (\<lambda>v. v * delta + start) y);
            y = (if 1 < num then y[nat num - 1 := stop] else y)
        in Inr (map Fin y))"

text \<open>\<open>np.zeros(n)\<close>: a negative size raises ValueError.\<close>

definition np_zeros :: "int \<Rightarrow> error + npfloat list" where
  "np_zeros n = (if n < 0 then Inl ValueError else Inr (replicate (nat n) (Fin 0)))"

text \<open>Reading and writing one element at a non-negative index; out of range raises.\<close>

definition getitem :: "npfloat list \<Rightarrow> nat \<Rightarrow> error + npfloat" where
  "getitem xs i = (if i < length xs then Inr (xs ! i) else Inl IndexError)"

definition setitem :: "npfloat list \<Rightarrow> nat \<Rightarrow> npfloat \<Rightarrow> error + npfloat list" where
  "setitem xs i v = (if i < length xs then Inr (xs[i := v]) else Inl IndexError)"

text \<open>
  A \<open>for i in range(...)\<close> loop whose body may raise: the body maps the loop index and
  the current array to an error or the updated array, and the first error ends the loop.
\<close>

fun for_range :: "(nat \<Rightarrow> 'a \<Rightarrow> error + 'a) \<Rightarrow> nat list \<Rightarrow> 'a \<Rightarrow> error + 'a" where
  "for_range body [] s = Inr s"
| "for_range body (i # rest) s =
     (case body i s of Inl e \<Rightarrow> Inl e | Inr s' \<Rightarrow> for_range body rest s')"

section \<open>The generator\<close>

record generator =
  n_steps :: int
  steps :: "npfloat list"

text \<open>\<open>Schedule.__init__\<close> (schedule.py) and \<open>Schedules.__init__\<close> (schedules.py).\<close>

definition Schedule_init :: "int \<Rightarrow> error + generator" where
  "Schedule_init n =
     (case np_linspace 0 (real_of_int n) n of
        Inl e \<Rightarrow> Inl e
      | Inr st \<Rightarrow> Inr \<lparr>n_steps = n, steps = st\<rparr>)"

definition Schedules_init :: "int \<Rightarrow> error + generator" where
  "Schedules_init n =
     (case np_linspace 0 (real_of_int n) n of
        Inl e \<Rightarrow> Inl e
      | Inr st \<Rightarrow> Inr \<lparr>n_steps = n, steps = st\<rparr>)"

section \<open>The methods of \<open>Schedule\<close> (schedule.py)\<close>

text \<open>
  The element-wise methods read \<open>self.steps\<close> and \<open>self.n_steps\<close> and build a new
  array; no numpy operation in them raises. \<open>staircase is True\<close> and \<open>cycle is True\<close>
  select the first branch exactly for the Boolean \<open>True\<close>.
\<close>

definition Schedule_exponential_decay ::
  "generator \<Rightarrow> real \<Rightarrow> real \<Rightarrow> bool \<Rightarrow> npfloat list" where
  "Schedule_exponential_decay self initial_value decay_rate staircase =
     (if staircase then
        map (\<lambda>x. fmul (Fin initial_value)
                    (np_power (Fin decay_rate)
                       (np_floor (fdiv x (Fin (real_of_int (n_steps self)))))))
          (steps self)
      else
        map (\<lambda>x. fmul (Fin initial_value)
                    (np_power (Fin decay_rate) (fdiv x (Fin (real_of_int (n_steps self))))))
          (steps self))"

definition Schedule_cosine_decay :: "generator \<Rightarrow> real \<Rightarrow> real \<Rightarrow> npfloat list" where
  "Schedule_cosine_decay self initial_value alpha =
     (let steps' = map (\<lambda>x. np_minimum x (Fin (real_of_int (n_steps self)))) (steps self);
          cosine_decay =
            map (\<lambda>x. fmul (Fin (1 / 2))
                        (fadd (Fin 1)
                           (np_cos (fmul (Fin pi) (fdiv x (Fin (real_of_int (n_steps self))))))))
              steps';
          decayed = map (\<lambda>c. fadd (fmul (Fin (1 - alpha)) c) (Fin alpha)) cosine_decay
      in map (\<lambda>d. fmul (Fin initial_value) d) decayed)"

definition Schedule_inverse_time_decay ::
  "generator \<Rightarrow> real \<Rightarrow> real \<Rightarrow> bool \<Rightarrow> npfloat list" where
  "Schedule_inverse_time_decay self initial_value decay_rate staircase =
     (if staircase then
        map (\<lambda>x. fdiv (Fin initial_value)
                    (fadd (Fin 1)
                       (fmul (Fin decay_rate)
                          (np_floor (fdiv x (Fin (real_of_int (n_steps self))))))))
          (steps self)
      else
        map (\<lambda>x. fdiv (Fin initial_value)
                    (fadd (Fin 1)
                       (fmul (Fin decay_rate) (fdiv x (Fin (real_of_int (n_steps self)))))))
          (steps self))"

text \<open>
  The two intermediate arrays of the \<open>cycle\<close> branch of \<open>polynomial_decay\<close>: the local
  \<open>n_steps\<close> (the horizon of each element) and the quotient \<open>steps / n_steps\<close>.
\<close>

definition cycle_horizon :: "generator \<Rightarrow> npfloat list" where
  "cycle_horizon self =
     map (\<lambda>x. fmul (Fin (real_of_int (n_steps self)))
                 (np_ceil (fdiv x (Fin (real_of_int (n_steps self))))))
       (steps self)"

definition cycle_quotient :: "generator \<Rightarrow> npfloat list" where
  "cycle_quotient self = map2 fdiv (steps self) (cycle_horizon self)"

definition Schedule_polynomial_decay ::
  "generator \<Rightarrow> real \<Rightarrow> real \<Rightarrow> real \<Rightarrow> bool \<Rightarrow> npfloat list" where
  "Schedule_polynomial_decay self initial_value end_value pwr cycle =
     (if cycle then
        map (\<lambda>q. fadd (fmul (Fin (initial_value - end_value))
                          (np_power (fsub (Fin 1) q) (Fin pwr)))
                    (Fin end_value))
          (cycle_quotient self)
      else
        let steps' = map (\<lambda>x. np_minimum x (Fin (real_of_int (n_steps self)))) (steps self)
        in map (\<lambda>x. fadd (fmul (Fin (initial_value - end_value))
                             (np_power
                                (fsub (Fin 1) (fdiv x (Fin (real_of_int (n_steps self)))))
                                (Fin pwr)))
                       (Fin end_value))
             steps')"

definition Schedule_constant :: "generator \<Rightarrow> real \<Rightarrow> npfloat list" where
  "Schedule_constant self v = replicate (length (steps self)) (Fin v)"

subsection \<open>Piecewise constant decay\<close>

text \<open>
  \<open>np.append(0, boundaries)\<close> concatenates the integer array \<open>[0]\<close> with the array made
  of the list \<open>boundaries\<close>. A non-empty list of integers gives an integer array; the
  empty list gives an empty array of doubles, and the concatenation is then an array of
  doubles. The element type decides whether an element can be a size or a slice index.
\<close>

datatype dtype = Int64 | Float64

type_synonym index_array = "dtype \<times> int list"

definition np_append_zero :: "int list \<Rightarrow> index_array" where
  "np_append_zero boundaries =
     (if boundaries = [] then Float64 else Int64, 0 # boundaries)"

definition np_append_int :: "index_array \<Rightarrow> int \<Rightarrow> index_array" where
  "np_append_int arr n = (fst arr, snd arr @ [n])"

text \<open>
  \<open>np.full(size, v)\<close>: a size that is a double raises TypeError, a negative size raises
  ValueError.
\<close>

definition np_full :: "dtype \<Rightarrow> int \<Rightarrow> npfloat \<Rightarrow> error + npfloat list" where
  "np_full d shape v =
     (if d = Float64 then Inl TypeError
      else if shape < 0 then Inl ValueError
      else Inr (replicate (nat shape) v))"

text \<open>
  The bounds of the slice \<open>a:b\<close> of a sequence of length \<open>len\<close>: a negative index counts
  from the end, and both are clamped into \<open>[0, len]\<close>.
\<close>

definition slice_index :: "nat \<Rightarrow> int \<Rightarrow> nat" where
  "slice_index len a =
     (if a < 0 then nat (max (a + int len) 0) else min (nat a) len)"

text \<open>
  \<open>sequence[a:b] = rhs\<close>: slice indices that are doubles raise TypeError. The slice
  has \<open>max 0 (stop - start)\<close> elements; the right-hand side must have as many, or
  exactly one (which is then repeated), otherwise the assignment raises ValueError.
\<close>

definition slice_assign ::
  "npfloat list \<Rightarrow> dtype \<Rightarrow> int \<Rightarrow> int \<Rightarrow> npfloat list \<Rightarrow> error + npfloat list" where
  "slice_assign seq d a b rhs =
     (if d = Float64 then Inl TypeError
      else
        let start = slice_index (length seq) a;
            stop = slice_index (length seq) b;
            len = stop - start
        in if length rhs = len then Inr (take start seq @ rhs @ drop (start + len) seq)
           else if length rhs = 1
             then Inr (take start seq @ replicate len (hd rhs) @ drop (start + len) seq)
           else Inl ValueError)"

text \<open>
  The body of the loop over \<open>range(len(values))\<close>: the right-hand side \<open>np.full(...)\<close> is
  evaluated first, then the slice is assigned. \<open>bs\<close> has \<open>len(values) + 1\<close> elements
  when the body runs, so \<open>bs[value + 1]\<close> is in range.
\<close>

definition piecewise_body ::
  "index_array \<Rightarrow> real list \<Rightarrow> nat \<Rightarrow> npfloat list \<Rightarrow> error + npfloat list" where
  "piecewise_body bs vals k seq =
     (case np_full (fst bs) (snd bs ! (k + 1) - snd bs ! k) (Fin (vals ! k)) of
        Inl e \<Rightarrow> Inl e
      | Inr rhs \<Rightarrow> slice_assign seq (fst bs) (snd bs ! k) (snd bs ! (k + 1)) rhs)"

definition Schedule_piecewise_constant_decay ::
  "generator \<Rightarrow> int list \<Rightarrow> real list \<Rightarrow> error + npfloat list" where
  "Schedule_piecewise_constant_decay self boundaries vals =
     (if length boundaries + 1 \<noteq> length vals then Inl ValueError
      else
        let bs = np_append_zero boundaries;
            bs = np_append_int bs (n_steps self)
        in case np_zeros (n_steps self) of
             Inl e \<Rightarrow> Inl e
           | Inr sequence \<Rightarrow> for_range (piecewise_body bs vals) [0..<length vals] sequence)"

subsection \<open>The loop-built sequences\<close>

text \<open>
  Each starts from \<open>np.zeros(self.n_steps)\<close>, stores the initial value at index 0 and
  runs \<open>for i in range(self.n_steps - 1)\<close>, storing element \<open>i + 1\<close>. The scalar
  expressions \<open>initial_value * decay**i\<close> and \<open>initial_value - decay * i\<close> are Python
  float arithmetic on finite values.
\<close>

definition Schedule_geometric_decay ::
  "generator \<Rightarrow> real \<Rightarrow> real \<Rightarrow> real \<Rightarrow> error + npfloat list" where
  "Schedule_geometric_decay self initial_value decay minimum_value =
     (case np_zeros (n_steps self) of
        Inl e \<Rightarrow> Inl e
      | Inr sequence \<Rightarrow>
          (case setitem sequence 0 (Fin initial_value) of
             Inl e \<Rightarrow> Inl e
           | Inr sequence \<Rightarrow>
               for_range
                 (\<lambda>i sequence.
                    setitem sequence (i + 1)
                      (np_maximum (Fin (initial_value * decay ^ i)) (Fin minimum_value)))
                 [0..<nat (n_steps self - 1)] sequence))"

definition Schedule_arithmetic_decay ::
  "generator \<Rightarrow> real \<Rightarrow> real \<Rightarrow> real \<Rightarrow> error + npfloat list" where
  "Schedule_arithmetic_decay self initial_value decay minimum_value =
     (case np_zeros (n_steps self) of
        Inl e \<Rightarrow> Inl e
      | Inr sequence \<Rightarrow>
          (case setitem sequence 0 (Fin initial_value) of
             Inl e \<Rightarrow> Inl e
           | Inr sequence \<Rightarrow>
               for_range
                 (\<lambda>i sequence.
                    setitem sequence (i + 1)
                      (np_maximum (Fin (initial_value - decay * real i)) (Fin minimum_value)))
                 [0..<nat (n_steps self - 1)] sequence))"

text \<open>
  \<open>time_decay\<close> reads the element stored by the previous iteration:
  \<open>sequence[i + 1] = sequence[i] / (1 + decay_rate * i)\<close>, a division of a numpy
  scalar, which does not raise.
\<close>

definition time_decay_body :: "real \<Rightarrow> nat \<Rightarrow> npfloat list \<Rightarrow> error + npfloat list" where
  "time_decay_body decay_rate i sequence =
     (case getitem sequence i of
        Inl e \<Rightarrow> Inl e
      | Inr prev \<Rightarrow> setitem sequence (i + 1) (fdiv prev (Fin (1 + decay_rate * real i))))"

definition Schedule_time_decay :: "generator \<Rightarrow> real \<Rightarrow> real \<Rightarrow> error + npfloat list" where
  "Schedule_time_decay self initial_value decay_rate =
     (case np_zeros (n_steps self) of
        Inl e \<Rightarrow> Inl e
      | Inr sequence \<Rightarrow>
          (case setitem sequence 0 (Fin initial_value) of
             Inl e \<Rightarrow> Inl e
           | Inr sequence \<Rightarrow>
               for_range (time_decay_body decay_rate) [0..<nat (n_steps self - 1)] sequence))"

text \<open>
  \<open>step_decay\<close>: \<open>(1 + i) / i_drop\<close> is a Python division of integers, which raises
  ZeroDivisionError for \<open>i_drop = 0\<close>; its floor is the exponent of \<open>np.power\<close>.
\<close>

definition step_decay_body ::
  "real \<Rightarrow> real \<Rightarrow> int \<Rightarrow> nat \<Rightarrow> npfloat list \<Rightarrow> error + npfloat list" where
  "step_decay_body initial_value drop_size i_drop i sequence =
     (if i_drop = 0 then Inl ZeroDivisionError
      else
        setitem sequence (i + 1)
          (fmul (Fin initial_value)
             (np_power (Fin drop_size)
                (np_floor (Fin (real (1 + i) / real_of_int i_drop))))))"

definition Schedule_step_decay ::
  "generator \<Rightarrow> real \<Rightarrow> real \<Rightarrow> int \<Rightarrow> error + npfloat list" where
  "Schedule_step_decay self initial_value drop_size i_drop =
     (case np_zeros (n_steps self) of
        Inl e \<Rightarrow> Inl e
      | Inr sequence \<Rightarrow>
          (case setitem sequence 0 (Fin initial_value) of
             Inl e \<Rightarrow> Inl e
           | Inr sequence \<Rightarrow>
               for_range (step_decay_body initial_value drop_size i_drop)
                 [0..<nat (n_steps self - 1)] sequence))"

section \<open>The methods of \<open>Schedules\<close> (schedules.py)\<close>

text \<open>
  The second class has the constructor and six of the methods; they are translated from
  schedules.py on their own. The array primitives and the intermediate arrays of the
  \<open>cycle\<close> branch are those of numpy and are shared.
\<close>

definition Schedules_exponential_decay ::
  "generator \<Rightarrow> real \<Rightarrow> real \<Rightarrow> bool \<Rightarrow> npfloat list" where
  "Schedules_exponential_decay self initial_value decay_rate staircase =
     (if staircase then
        map (\<lambda>x. fmul (Fin initial_value)
                    (np_power (Fin decay_rate)
                       (np_floor (fdiv x (Fin (real_of_int (n_steps self)))))))
          (steps self)
      else
        map (\<lambda>x. fmul (Fin initial_value)
                    (np_power (Fin decay_rate) (fdiv x (Fin (real_of_int (n_steps self))))))
          (steps self))"

definition Schedules_cosine_decay :: "generator \<Rightarrow> real \<Rightarrow> real \<Rightarrow> npfloat list" where
  "Schedules_cosine_decay self initial_value alpha =
     (let steps' = map (\<lambda>x. np_minimum x (Fin (real_of_int (n_steps self)))) (steps self);
          cosine_decay =
            map (\<lambda>x. fmul (Fin (1 / 2))
                        (fadd (Fin 1)
                           (np_cos (fmul (Fin pi) (fdiv x (Fin (real_of_int (n_steps self))))))))
              steps';
          decayed = map (\<lambda>c. fadd (fmul (Fin (1 - alpha)) c) (Fin alpha)) cosine_decay
      in map (\<lambda>d. fmul (Fin initial_value) d) decayed)"

definition Schedules_inverse_time_decay ::
  "generator \<Rightarrow> real \<Rightarrow> real \<Rightarrow> bool \<Rightarrow> npfloat list" where
  "Schedules_inverse_time_decay self initial_value decay_rate staircase =
     (if staircase then
        map (\<lambda>x. fdiv (Fin initial_value)
                    (fadd (Fin 1)
                       (fmul (Fin decay_rate)
                          (np_floor (fdiv x (Fin (real_of_int (n_steps self))))))))
          (steps self)
      else
        map (\<lambda>x. fdiv (Fin initial_value)
                    (fadd (Fin 1)
                       (fmul (Fin decay_rate) (fdiv x (Fin (real_of_int (n_steps self)))))))
          (steps self))"

definition Schedules_polynomial_decay ::
  "generator \<Rightarrow> real \<Rightarrow> real \<Rightarrow> real \<Rightarrow> bool \<Rightarrow> npfloat list" where
  "Schedules_polynomial_decay self initial_value end_value pwr cycle =
     (if cycle then
        map (\<lambda>q. fadd (fmul (Fin (initial_value - end_value))
                          (np_power (fsub (Fin 1) q) (Fin pwr)))
                    (Fin end_value))
          (cycle_quotient self)
      else
        let steps' = map (\<lambda>x. np_minimum x (Fin (real_of_int (n_steps self)))) (steps self)
        in map (\<lambda>x. fadd (fmul (Fin (initial_value - end_value))
                             (np_power
                                (fsub (Fin 1) (fdiv x (Fin (real_of_int (n_steps self)))))
                                (Fin pwr)))
                       (Fin end_value))
             steps')"

definition Schedules_piecewise_constant_decay ::
  "generator \<Rightarrow> int list \<Rightarrow> real list \<Rightarrow> error + npfloat list" where
  "Schedules_piecewise_constant_decay self boundaries vals =
     (if length boundaries + 1 \<noteq> length vals then Inl ValueError
      else
        let bs = np_append_zero boundaries;
            bs = np_append_int bs (n_steps self)
        in case np_zeros (n_steps self) of
             Inl e \<Rightarrow> Inl e
           | Inr sequence \<Rightarrow> for_range (piecewise_body bs vals) [0..<length vals] sequence)"

definition Schedules_constant :: "generator \<Rightarrow> real \<Rightarrow> npfloat list" where
  "Schedules_constant self v = replicate (length (steps self)) (Fin v)"

section \<open>Method calls on an instance\<close>

text \<open>
  A call takes the instance and returns the outcome (the raised error or the returned
  array) together with the instance after the call. No method assigns to \<open>self.n_steps\<close>
  or \<open>self.steps\<close> or writes into the array \<open>self.steps\<close>: every numpy operation applied to
  it allocates its result, and the arrays written by index are the fresh \<open>np.zeros\<close>
  ones. A method that the class does not define raises AttributeError.
\<close>

datatype method_call =
    Exponential_decay real real bool
  | Cosine_decay real real
  | Inverse_time_decay real real bool
  | Polynomial_decay real real real bool
  | Piecewise_constant_decay "int list" "real list"
  | Constant real
  | Geometric_decay real real real
  | Arithmetic_decay real real real
  | Time_decay real real
  | Step_decay real real int

fun Schedule_call :: "generator \<Rightarrow> method_call \<Rightarrow> (error + npfloat list) \<times> generator" where
  "Schedule_call self (Exponential_decay a r st) =
     (Inr (Schedule_exponential_decay self a r st), self)"
| "Schedule_call self (Cosine_decay a al) = (Inr (Schedule_cosine_decay self a al), self)"
| "Schedule_call self (Inverse_time_decay a r st) =
     (Inr (Schedule_inverse_time_decay self a r st), self)"
| "Schedule_call self (Polynomial_decay a e p cy) =
     (Inr (Schedule_polynomial_decay self a e p cy), self)"
| "Schedule_call self (Piecewise_constant_decay bs vs) =
     (Schedule_piecewise_constant_decay self bs vs, self)"
| "Schedule_call self (Constant v) = (Inr (Schedule_constant self v), self)"
| "Schedule_call self (Geometric_decay a d m) = (Schedule_geometric_decay self a d m, self)"
| "Schedule_call self (Arithmetic_decay a d m) = (Schedule_arithmetic_decay self a d m, self)"
| "Schedule_call self (Time_decay a r) = (Schedule_time_decay self a r, self)"
| "Schedule_call self (Step_decay a d k) = (Schedule_step_decay self a d k, self)"

fun Schedules_call :: "generator \<Rightarrow> method_call \<Rightarrow> (error + npfloat list) \<times> generator" where
  "Schedules_call self (Exponential_decay a r st) =
     (Inr (Schedules_exponential_decay self a r st), self)"
| "Schedules_call self (Cosine_decay a al) = (Inr (Schedules_cosine_decay self a al), self)"
| "Schedules_call self (Inverse_time_decay a r st) =
     (Inr (Schedules_inverse_time_decay self a r st), self)"
| "Schedules_call self (Polynomial_decay a e p cy) =
     (Inr (Schedules_polynomial_decay self a e p cy), self)"
| "Schedules_call self (Piecewise_constant_decay bs vs) =
     (Schedules_piecewise_constant_decay self bs vs, self)"
| "Schedules_call self (Constant v) = (Inr (Schedules_constant self v), self)"
| "Schedules_call self m = (Inl AttributeError, self)"

text \<open>Constructing an instance with \<open>n_steps = n\<close> and calling one method on it.\<close>

definition Schedule_run :: "int \<Rightarrow> method_call \<Rightarrow> error + npfloat list" where
  "Schedule_run n m =
     (case Schedule_init n of Inl e \<Rightarrow> Inl e | Inr self \<Rightarrow> fst (Schedule_call self m))"

definition Schedules_run :: "int \<Rightarrow> method_call \<Rightarrow> error + npfloat list" where
  "Schedules_run n m =
     (case Schedules_init n of Inl e \<Rightarrow> Inl e | Inr self \<Rightarrow> fst (Schedules_call self m))"

section \<open>Predicates of the specification\<close>

text \<open>The six methods that both classes define.\<close>

fun common_method :: "method_call \<Rightarrow> bool" where
  "common_method (Geometric_decay a d m) = False"
| "common_method (Arithmetic_decay a d m) = False"
| "common_method (Time_decay a r) = False"
| "common_method (Step_decay a d k) = False"
| "common_method m = True"



section \<open>The base array\<close>

lemma linspace_one: "np_linspace 0 1 1 = Inr [Fin 0]"
  by (simp add: np_linspace_def)

lemma linspace_closed:
  assumes "1 < n"
  shows "np_linspace 0 (real_of_int n) n =
         Inr (map (\<lambda>i. Fin (real i * real_of_int n / real_of_int (n - 1))) [0..<nat n])"
proof -
  let ?y = "map (\<lambda>v. v * ((real_of_int n - 0) / real_of_int (n - 1)) + 0) (map real [0..<nat n])"
  let ?z = "map (\<lambda>i. real i * real_of_int n / real_of_int (n - 1)) [0..<nat n]"
  have last: "real (nat n - 1) * real_of_int n / real_of_int (n - 1) = real_of_int n"
    using assms by (simp add: of_nat_diff)
  have "?y[nat n - 1 := real_of_int n] = ?z"
  proof (rule nth_equalityI)
    show "length (?y[nat n - 1 := real_of_int n]) = length ?z"
      by simp
  next
    fix i assume "i < length (?y[nat n - 1 := real_of_int n])"
    then have i: "i < nat n" by simp
    show "?y[nat n - 1 := real_of_int n] ! i = ?z ! i"
    proof (cases "i = nat n - 1")
      case True
      then show ?thesis using i last by simp
    next
      case False
      then show ?thesis using i by (simp add: nth_list_update)
    qed
  qed
  then show ?thesis
    using assms by (simp add: np_linspace_def Let_def)
qed

lemma steps_mono:
  assumes "1 < n"
  shows "sorted_wrt fle (map (\<lambda>i. Fin (real i * real_of_int n / real_of_int (n - 1))) [0..<nat n])"
proof -
  have "real i * real_of_int n / real_of_int (n - 1) \<le> real j * real_of_int n / real_of_int (n - 1)"
    if "i < j" for i j :: nat
    using that assms by (intro divide_right_mono mult_right_mono) simp_all
  then show ?thesis
    by (simp add: sorted_wrt_map sorted_wrt_iff_nth_less)
qed

text \<open>
  C1. For every integer \<open>n \<ge> 1\<close> both constructors succeed and build the same instance:
  \<open>n_steps\<close> is \<open>n\<close>, and \<open>steps\<close> has exactly \<open>n\<close> elements in non-decreasing
  order; for \<open>n > 1\<close> element \<open>i\<close> is \<open>i * n / (n - 1)\<close>, so the first is \<open>0\<close> and the
  last is \<open>n\<close>; for \<open>n = 1\<close> the array is \<open>[0]\<close>.
\<close>

theorem init_steps:
  assumes "1 \<le> n"
  shows "\<exists>s. Schedule_init n = Inr s \<and> Schedules_init n = Inr s \<and>
           n_steps s = n \<and> length (steps s) = nat n \<and>
           sorted_wrt fle (steps s) \<and>
           (1 < n \<longrightarrow>
              (\<forall>i < nat n. steps s ! i = Fin (real i * real_of_int n / real_of_int (n - 1))) \<and>
              steps s ! 0 = Fin 0 \<and> steps s ! (nat n - 1) = Fin (real_of_int n)) \<and>
           (n = 1 \<longrightarrow> steps s = [Fin 0])"
proof (cases "n = 1")
  case True
  then show ?thesis
    by (simp add: Schedule_init_def Schedules_init_def linspace_one)
next
  case False
  with assms have n: "1 < n" by simp
  have last: "real (nat n - 1) * real_of_int n / real_of_int (n - 1) = real_of_int n"
    using n by (simp add: of_nat_diff)
  show ?thesis
    using n steps_mono [OF n] last
    by (simp add: Schedule_init_def Schedules_init_def linspace_closed)
qed

theorem init_steps_witness:
  "\<exists>s. Schedule_init 4 = Inr s \<and> Schedules_init 4 = Inr s \<and> n_steps s = 4 \<and>
     length (steps s) = 4 \<and> sorted_wrt fle (steps s) \<and>
     steps s ! 0 = Fin 0 \<and> steps s ! 1 = Fin (4 / 3) \<and> steps s ! 2 = Fin (8 / 3) \<and>
     steps s ! 3 = Fin 4"
proof -
  from init_steps [of 4] obtain s where s:
    "Schedule_init 4 = Inr s" "Schedules_init 4 = Inr s" "n_steps s = 4"
    "length (steps s) = 4" "sorted_wrt fle (steps s)"
    "\<forall>i < 4. steps s ! i = Fin (real i * 4 / 3)"
    by auto
  have "steps s ! 0 = Fin 0" "steps s ! 1 = Fin (4 / 3)" "steps s ! 2 = Fin (8 / 3)"
    "steps s ! 3 = Fin 4"
    using s(6) by simp_all
  with s show ?thesis by blast
qed

section \<open>Loops\<close>

lemma for_range_append:
  "for_range body (xs @ ys) s =
     (case for_range body xs s of Inl e \<Rightarrow> Inl e | Inr s' \<Rightarrow> for_range body ys s')"
  by (induction xs arbitrary: s) (auto split: sum.splits)

lemma for_range_invariant:
  assumes "P 0 s0"
    and "\<And>i s. i < k \<Longrightarrow> P i s \<Longrightarrow> \<exists>s'. body i s = Inr s' \<and> P (Suc i) s'"
  shows "\<exists>s'. for_range body [0..<k] s0 = Inr s' \<and> P k s'"
  using assms(2)
proof (induction k)
  case 0
  then show ?case using assms(1) by simp
next
  case (Suc k)
  then obtain s1 where s1: "for_range body [0..<k] s0 = Inr s1" "P k s1"
    by (metis less_Suc_eq)
  from Suc.prems [of k s1] s1(2) obtain s2 where "body k s1 = Inr s2" "P (Suc k) s2"
    by auto
  with s1 show ?case
    by (simp add: for_range_append)
qed

lemma loop_closed_form:
  assumes "0 < m"
  shows "\<exists>out. for_range (\<lambda>i sequence. setitem sequence (i + 1) (f i)) [0..<m - 1]
             ((replicate m (Fin 0))[0 := v]) = Inr out \<and>
           length out = m \<and> out ! 0 = v \<and> (\<forall>i. 1 \<le> i \<and> i < m \<longrightarrow> out ! i = f (i - 1))"
proof -
  let ?P = "\<lambda>k seq. length seq = m \<and> seq ! 0 = v \<and> (\<forall>i. 1 \<le> i \<and> i \<le> k \<longrightarrow> seq ! i = f (i - 1))"
  have "\<exists>s'. for_range (\<lambda>i sequence. setitem sequence (i + 1) (f i)) [0..<m - 1]
             ((replicate m (Fin 0))[0 := v]) = Inr s' \<and> ?P (m - 1) s'"
  proof (rule for_range_invariant)
    show "?P 0 ((replicate m (Fin 0))[0 := v])"
      using assms by simp
  next
    fix i s assume i: "i < m - 1" and P: "?P i s"
    have "setitem s (i + 1) (f i) = Inr (s[i + 1 := f i])"
      using i P by (simp add: setitem_def)
    moreover have "?P (Suc i) (s[i + 1 := f i])"
      using i P by (auto simp: nth_list_update le_Suc_eq)
    ultimately show "\<exists>s'. setitem s (i + 1) (f i) = Inr s' \<and> ?P (Suc i) s'"
      by blast
  qed
  then obtain out where
    "for_range (\<lambda>i sequence. setitem sequence (i + 1) (f i)) [0..<m - 1]
       ((replicate m (Fin 0))[0 := v]) = Inr out" "?P (m - 1) out"
    by blast
  then show ?thesis
    by (intro exI [of _ out]) auto
qed




lemma step_closed:
  assumes "1 \<le> n_steps s" and "k \<noteq> 0"
  shows "\<exists>out. Schedule_step_decay s a d k = Inr out \<and>
           length out = nat (n_steps s) \<and> out ! 0 = Fin a \<and>
           (\<forall>i. 1 \<le> i \<and> i < nat (n_steps s) \<longrightarrow>
              out ! i = fmul (Fin a)
                (np_power (Fin d) (Fin (of_int \<lfloor>real i / real_of_int k\<rfloor>))))"
proof -
  let ?f = "\<lambda>i. fmul (Fin a) (np_power (Fin d) (np_floor (Fin (real (1 + i) / real_of_int k))))"
  have m: "0 < nat (n_steps s)" "nat (n_steps s - 1) = nat (n_steps s) - 1"
    using assms by auto
  have body: "step_decay_body a d k = (\<lambda>i sequence. setitem sequence (i + 1) (?f i))"
    using assms(2) by (intro ext) (simp add: step_decay_body_def)
  from loop_closed_form [OF m(1), of ?f "Fin a"] obtain out where out:
    "for_range (\<lambda>i sequence. setitem sequence (i + 1) (?f i)) [0..<nat (n_steps s) - 1]
       ((replicate (nat (n_steps s)) (Fin 0))[0 := Fin a]) = Inr out"
    "length out = nat (n_steps s)" "out ! 0 = Fin a"
    "\<forall>i. 1 \<le> i \<and> i < nat (n_steps s) \<longrightarrow> out ! i = ?f (i - 1)"
    by blast
  have "Schedule_step_decay s a d k = Inr out"
    using out(1) assms(1) m by (simp add: Schedule_step_decay_def np_zeros_def setitem_def body)
  moreover have "out ! i = fmul (Fin a) (np_power (Fin d) (Fin (of_int \<lfloor>real i / real_of_int k\<rfloor>)))"
    if "1 \<le> i" "i < nat (n_steps s)" for i
    using out(4) that by simp
  ultimately show ?thesis
    using out(2,3) by blast
qed

lemma np_power_int:
  assumes "d \<noteq> 0 \<or> 0 \<le> z"
  shows "np_power (Fin d) (Fin (of_int z)) = Fin (power_int d z)"
proof (cases "z = 0")
  case True
  then show ?thesis by (simp add: np_power_def)
next
  case False
  show ?thesis
  proof (cases "d = 0")
    case True
    with assms False have "0 < z" by simp
    with True show ?thesis
      by (simp add: np_power_def power_int_def)
  next
    case False
    with \<open>z \<noteq> 0\<close> show ?thesis
      by (simp add: np_power_def)
  qed
qed

lemma time_closed:
  assumes "1 \<le> n_steps s"
  shows "\<exists>out. Schedule_time_decay s a r = Inr out \<and>
           length out = nat (n_steps s) \<and> out ! 0 = Fin a \<and>
           (\<forall>i. 1 \<le> i \<and> i < nat (n_steps s) \<longrightarrow>
              out ! i = fdiv (out ! (i - 1)) (Fin (1 + r * real (i - 1))))"
proof -
  let ?m = "nat (n_steps s)"
  let ?P = "\<lambda>k seq. length seq = ?m \<and> seq ! 0 = Fin a \<and>
     (\<forall>i. 1 \<le> i \<and> i \<le> k \<longrightarrow> seq ! i = fdiv (seq ! (i - 1)) (Fin (1 + r * real (i - 1))))"
  have m: "0 < ?m" "nat (n_steps s - 1) = ?m - 1"
    using assms by auto
  have "\<exists>s'. for_range (time_decay_body r) [0..<?m - 1] ((replicate ?m (Fin 0))[0 := Fin a]) = Inr s'
          \<and> ?P (?m - 1) s'"
  proof (rule for_range_invariant)
    show "?P 0 ((replicate ?m (Fin 0))[0 := Fin a])"
      using m by simp
  next
    fix i seq assume i: "i < ?m - 1" and P: "?P i seq"
    let ?seq' = "seq[i + 1 := fdiv (seq ! i) (Fin (1 + r * real i))]"
    have "time_decay_body r i seq = Inr ?seq'"
      using i P by (simp add: time_decay_body_def getitem_def setitem_def)
    moreover have "?P (Suc i) ?seq'"
    proof (intro conjI allI impI)
      show "length ?seq' = ?m" using P by simp
      show "?seq' ! 0 = Fin a" using P by simp
    next
      fix j assume j: "1 \<le> j \<and> j \<le> Suc i"
      show "?seq' ! j = fdiv (?seq' ! (j - 1)) (Fin (1 + r * real (j - 1)))"
      proof (cases "j = Suc i")
        case True
        then show ?thesis using i P by simp
      next
        case False
        with j have "j \<le> i" by simp
        with j P show ?thesis by (simp add: nth_list_update)
      qed
    qed
    ultimately show "\<exists>s'. time_decay_body r i seq = Inr s' \<and> ?P (Suc i) s'"
      by blast
  qed
  then obtain out where
    "for_range (time_decay_body r) [0..<?m - 1] ((replicate ?m (Fin 0))[0 := Fin a]) = Inr out"
    "?P (?m - 1) out"
    by blast
  then show ?thesis
    using assms m
    by (intro exI [of _ out]) (auto simp: Schedule_time_decay_def np_zeros_def setitem_def)
qed

lemma run_call:
  assumes "0 \<le> n"
  shows "\<exists>s. Schedule_init n = Inr s \<and> n_steps s = n \<and> length (steps s) = nat n \<and>
           Schedule_run n m = fst (Schedule_call s m)"
  using assms by (simp add: Schedule_run_def Schedule_init_def np_linspace_def Let_def)


lemma step_example:
  "Schedule_run 5 (Step_decay 1 (1 / 2) 2) =
     Inr [Fin 1, Fin 1, Fin (1 / 2), Fin (1 / 2), Fin (1 / 4)]"
  unfolding Schedule_run_def Schedule_call.simps fst_conv by code_simp

section \<open>Elements of the loop-built sequences\<close>



text \<open>
  C6. For every \<open>n \<ge> 1\<close> and nonzero \<open>i_drop\<close>, \<open>step_decay(initial, drop, i_drop)\<close>
  returns a sequence of \<open>n\<close> elements whose element 0 is \<open>initial\<close> and whose element
  \<open>i\<close>, for \<open>1 \<le> i < n\<close>, is \<open>initial * drop^floor(i / i_drop)\<close>, the product and the power
  being those of doubles; when \<open>drop\<close> is nonzero or \<open>i_drop\<close> is positive this is the real
  number \<open>initial * drop^floor(i / i_drop)\<close>. And \<open>step_decay(1.0, 0.5, 2)\<close> on 5 steps
  returns \<open>[1.0, 1.0, 0.5, 0.5, 0.25]\<close>.
\<close>

theorem step_decay_elements:
  assumes "1 \<le> n" and "k \<noteq> 0"
  shows "(\<exists>out. Schedule_run n (Step_decay a d k) = Inr out \<and> length out = nat n \<and>
            out ! 0 = Fin a \<and>
            (\<forall>i. 1 \<le> i \<and> i < nat n \<longrightarrow>
               out ! i = fmul (Fin a)
                 (np_power (Fin d) (Fin (of_int \<lfloor>real i / real_of_int k\<rfloor>))) \<and>
               (d \<noteq> 0 \<or> 0 < k \<longrightarrow>
                  out ! i = Fin (a * power_int d \<lfloor>real i / real_of_int k\<rfloor>)))) \<and>
         Schedule_run 5 (Step_decay 1 (1 / 2) 2) =
           Inr [Fin 1, Fin 1, Fin (1 / 2), Fin (1 / 2), Fin (1 / 4)]"
proof -
  from run_call [of n "Step_decay a d k"] assms obtain s where
    s: "n_steps s = n" "Schedule_run n (Step_decay a d k) = Schedule_step_decay s a d k"
    by auto
  from step_closed [of s k a d] assms s obtain out where out:
    "Schedule_run n (Step_decay a d k) = Inr out" "length out = nat n" "out ! 0 = Fin a"
    "\<forall>i. 1 \<le> i \<and> i < nat n \<longrightarrow>
       out ! i = fmul (Fin a) (np_power (Fin d) (Fin (of_int \<lfloor>real i / real_of_int k\<rfloor>)))"
    by auto
  have "out ! i = Fin (a * power_int d \<lfloor>real i / real_of_int k\<rfloor>)"
    if i: "1 \<le> i" "i < nat n" and dk: "d \<noteq> 0 \<or> 0 < k" for i
  proof -
    have "0 < k \<Longrightarrow> 0 \<le> \<lfloor>real i / real_of_int k\<rfloor>"
      by simp
    with dk have "d \<noteq> 0 \<or> 0 \<le> \<lfloor>real i / real_of_int k\<rfloor>"
      by blast
    then show ?thesis
      using out(4) i by (simp add: np_power_int)
  qed
  with out show ?thesis
    by (simp add: step_example)
qed

theorem step_decay_elements_witness:
  "\<exists>out. Schedule_run 4 (Step_decay 8 (1 / 2) 3) = Inr out \<and> length out = 4 \<and>
     out ! 0 = Fin 8 \<and> out ! 1 = Fin 8 \<and> out ! 2 = Fin 8 \<and> out ! 3 = Fin 4"
proof -
  have k: "(3::int) \<noteq> 0" by simp
  from step_decay_elements [of 4 3 8 "1 / 2"] obtain out where out:
    "Schedule_run 4 (Step_decay 8 (1 / 2) 3) = Inr out" "length out = 4" "out ! 0 = Fin 8"
    "\<forall>i. 1 \<le> i \<and> i < 4 \<longrightarrow> out ! i = Fin (8 * power_int (1 / 2) \<lfloor>real i / 3\<rfloor>)"
    by auto
  have "out ! 1 = Fin 8" "out ! 2 = Fin 8" "out ! 3 = Fin 4"
    using out(4) by simp_all
  with out show ?thesis by blast
qed

text \<open>
  C7. For every \<open>n \<ge> 1\<close>, \<open>time_decay(initial, rate)\<close> returns a sequence of \<open>n\<close> elements
  whose element 0 is \<open>initial\<close> and whose element \<open>i\<close>, for \<open>1 \<le> i < n\<close>, is the element
  \<open>i - 1\<close> of the same output divided by \<open>1 + rate * (i - 1)\<close>.
\<close>

theorem time_decay_recurrence:
  assumes "1 \<le> n"
  shows "\<exists>out. Schedule_run n (Time_decay a r) = Inr out \<and> length out = nat n \<and>
           out ! 0 = Fin a \<and>
           (\<forall>i. 1 \<le> i \<and> i < nat n \<longrightarrow>
              out ! i = fdiv (out ! (i - 1)) (Fin (1 + r * real (i - 1))))"
proof -
  from run_call [of n "Time_decay a r"] assms obtain s where
    s: "n_steps s = n" "Schedule_run n (Time_decay a r) = Schedule_time_decay s a r"
    by auto
  from time_closed [of s a r] assms s show ?thesis
    by simp
qed

theorem time_decay_recurrence_witness:
  "\<exists>out. Schedule_run 4 (Time_decay 6 1) = Inr out \<and> length out = 4 \<and>
     out ! 0 = Fin 6 \<and> out ! 1 = Fin 6 \<and> out ! 2 = Fin 3 \<and> out ! 3 = Fin 1"
proof -
  from time_decay_recurrence [of 4 6 1] obtain out where out:
    "Schedule_run 4 (Time_decay 6 1) = Inr out" "length out = 4" "out ! 0 = Fin 6"
    "\<forall>i. 1 \<le> i \<and> i < 4 \<longrightarrow> out ! i = fdiv (out ! (i - 1)) (Fin (1 + real (i - 1)))"
    by auto
  have 1: "out ! 1 = Fin 6" using out(3,4) by simp
  have 2: "out ! 2 = Fin 3" using out(4) 1 by simp
  have 3: "out ! 3 = Fin 1" using out(4) 2 by simp
  from out 1 2 3 show ?thesis by blast
qed

section \<open>The two classes\<close>

lemma Schedules_call_common:
  assumes "common_method m"
  shows "Schedules_call s m = Schedule_call s m"
  using assms
  by (cases m)
    (simp_all add: Schedules_exponential_decay_def Schedule_exponential_decay_def
      Schedules_cosine_decay_def Schedule_cosine_decay_def
      Schedules_inverse_time_decay_def Schedule_inverse_time_decay_def
      Schedules_polynomial_decay_def Schedule_polynomial_decay_def
      Schedules_piecewise_constant_decay_def Schedule_piecewise_constant_decay_def
      Schedules_constant_def Schedule_constant_def)

lemma constant_example: "Schedule_run 3 (Constant 2) = Inr [Fin 2, Fin 2, Fin 2]"
  unfolding Schedule_run_def Schedule_call.simps fst_conv by code_simp

text \<open>
  C2. The constructor and each of the six methods that both classes define
  (\<open>exponential_decay\<close>, \<open>cosine_decay\<close>, \<open>inverse_time_decay\<close>, \<open>polynomial_decay\<close>,
  \<open>piecewise_constant_decay\<close>, \<open>constant\<close>) give the same outcome, the same array or the
  same error, in \<open>Schedules\<close> as in \<open>Schedule\<close>, on every instance and for all parameters;
  so does constructing with the same \<open>n_steps\<close> and calling one of the six.
\<close>

theorem schedules_equals_schedule:
  "Schedules_init n = Schedule_init n \<and>
   Schedules_exponential_decay s a r st = Schedule_exponential_decay s a r st \<and>
   Schedules_cosine_decay s a al = Schedule_cosine_decay s a al \<and>
   Schedules_inverse_time_decay s a r st = Schedule_inverse_time_decay s a r st \<and>
   Schedules_polynomial_decay s a e p cy = Schedule_polynomial_decay s a e p cy \<and>
   Schedules_piecewise_constant_decay s bs vs = Schedule_piecewise_constant_decay s bs vs \<and>
   Schedules_constant s v = Schedule_constant s v \<and>
   (common_method m \<longrightarrow>
      Schedules_call s m = Schedule_call s m \<and> Schedules_run n m = Schedule_run n m)"
proof -
  have init: "Schedules_init n = Schedule_init n"
    by (simp add: Schedules_init_def Schedule_init_def)
  have "Schedules_run n m = Schedule_run n m" if "common_method m"
    using that
    by (simp add: Schedules_run_def Schedule_run_def init Schedules_call_common
        split: sum.splits)
  then show ?thesis
    using init
    by (simp add: Schedules_call_common
      Schedules_exponential_decay_def Schedule_exponential_decay_def
      Schedules_cosine_decay_def Schedule_cosine_decay_def
      Schedules_inverse_time_decay_def Schedule_inverse_time_decay_def
      Schedules_polynomial_decay_def Schedule_polynomial_decay_def
      Schedules_piecewise_constant_decay_def Schedule_piecewise_constant_decay_def
      Schedules_constant_def Schedule_constant_def)
qed

theorem schedules_equals_schedule_witness:
  "Schedules_init 3 = Schedule_init 3 \<and>
   Schedules_run 3 (Constant 2) = Inr [Fin 2, Fin 2, Fin 2] \<and>
   Schedules_run 6 (Piecewise_constant_decay [2, 4] [1, 2]) =
     Schedule_run 6 (Piecewise_constant_decay [2, 4] [1, 2])"
  using schedules_equals_schedule [where n = 3 and m = "Constant 2"]
    schedules_equals_schedule [where n = 6 and m = "Piecewise_constant_decay [2, 4] [1, 2]"]
  by (simp add: constant_example)

section \<open>Calls do not change the instance\<close>



section \<open>Staircase exponential decay\<close>

lemma init_closed:
  assumes "1 < n"
  shows "Schedule_init n =
    Inr \<lparr>n_steps = n,
         steps = map (\<lambda>i. Fin (real i * real_of_int n / real_of_int (n - 1))) [0..<nat n]\<rparr>"
  using assms by (simp add: Schedule_init_def linspace_closed)

lemma staircase_floor:
  assumes "1 < n" and "i < nat n"
  shows "\<lfloor>real i / real_of_int (n - 1)\<rfloor> = (if i = nat n - 1 then 1 else 0)"
proof (cases "i = nat n - 1")
  case True
  then have "real i = real_of_int (n - 1)"
    using assms by (simp add: of_nat_diff)
  then show ?thesis using True assms by simp
next
  case False
  then have "real i < real_of_int (n - 1)"
    using assms by (simp add: of_nat_less_of_int_iff)
  moreover have "0 \<le> real i / real_of_int (n - 1)"
    using assms by simp
  ultimately have "\<lfloor>real i / real_of_int (n - 1)\<rfloor> = 0"
    using assms by (intro floor_unique) simp_all
  then show ?thesis using False by simp
qed

text \<open>
  C9. For every \<open>n \<ge> 2\<close>, \<open>steps[i] / n_steps\<close> is \<open>i / (n - 1)\<close>; its floor, the staircase
  exponent, is 0 for every \<open>i < n - 1\<close> and 1 for \<open>i = n - 1\<close>; so
  \<open>exponential_decay(initial, rate, staircase=True)\<close> returns \<open>initial\<close> at every element
  but the last and \<open>initial * rate\<close> at the last.
\<close>

theorem staircase_exponential:
  assumes "2 \<le> n"
  shows "\<exists>s out. Schedule_init n = Inr s \<and>
           Schedule_run n (Exponential_decay a r True) = Inr out \<and> length out = nat n \<and>
           (\<forall>i < nat n.
              fdiv (steps s ! i) (Fin (real_of_int n)) = Fin (real i / real_of_int (n - 1))) \<and>
           (\<forall>i < nat n - 1.
              np_floor (fdiv (steps s ! i) (Fin (real_of_int n))) = Fin 0 \<and> out ! i = Fin a) \<and>
           np_floor (fdiv (steps s ! (nat n - 1)) (Fin (real_of_int n))) = Fin 1 \<and>
           out ! (nat n - 1) = Fin (a * r)"
proof -
  let ?s = "\<lparr>n_steps = n,
         steps = map (\<lambda>i. Fin (real i * real_of_int n / real_of_int (n - 1))) [0..<nat n]\<rparr>"
  let ?out = "Schedule_exponential_decay ?s a r True"
  have n: "1 < n" using assms by simp
  have init: "Schedule_init n = Inr ?s"
    by (rule init_closed [OF n])
  have run: "Schedule_run n (Exponential_decay a r True) = Inr ?out"
    by (simp add: Schedule_run_def init)
  have len: "length ?out = nat n"
    by (simp add: Schedule_exponential_decay_def)
  have quot: "fdiv (steps ?s ! i) (Fin (real_of_int n)) = Fin (real i / real_of_int (n - 1))"
    if "i < nat n" for i
    using that n by simp
  have expo: "np_floor (fdiv (steps ?s ! i) (Fin (real_of_int n))) =
      Fin (if i = nat n - 1 then 1 else 0)"
    if "i < nat n" for i
    using quot [OF that] staircase_floor [OF n that] by simp
  have elt: "?out ! i = fmul (Fin a) (np_power (Fin r)
      (np_floor (fdiv (steps ?s ! i) (Fin (real_of_int n)))))"
    if "i < nat n" for i
    using that by (simp add: Schedule_exponential_decay_def)
  have first: "np_floor (fdiv (steps ?s ! i) (Fin (real_of_int n))) = Fin 0 \<and> ?out ! i = Fin a"
    if "i < nat n - 1" for i
  proof -
    from that have i: "i < nat n" "i \<noteq> nat n - 1" by simp_all
    from expo [OF i(1)] i(2) have e: "np_floor (fdiv (steps ?s ! i) (Fin (real_of_int n))) = Fin 0"
      by simp
    from elt [OF i(1)] e show ?thesis
      by (simp add: np_power_def)
  qed
  have l: "nat n - 1 < nat n" using n by simp
  have laste: "np_floor (fdiv (steps ?s ! (nat n - 1)) (Fin (real_of_int n))) = Fin 1"
    using expo [OF l] by simp
  have "np_power (Fin r) (Fin 1) = Fin r"
    using np_power_int [of r 1] by simp
  with elt [OF l] laste have lastv: "?out ! (nat n - 1) = Fin (a * r)"
    by simp
  show ?thesis
    using init run len quot first laste lastv by blast
qed

theorem staircase_exponential_witness:
  "Schedule_run 4 (Exponential_decay 3 (1 / 2) True) = Inr [Fin 3, Fin 3, Fin 3, Fin (3 / 2)]"
proof -
  from staircase_exponential [of 4 3 "1 / 2"] obtain out where out:
    "Schedule_run 4 (Exponential_decay 3 (1 / 2) True) = Inr out" "length out = 4"
    "\<forall>i < 3. out ! i = Fin 3" "out ! 3 = Fin (3 / 2)"
    by auto
  have "out ! 0 = Fin 3" "out ! 1 = Fin 3" "out ! 2 = Fin 3"
    using out(3) by simp_all
  with out(2,4) have "out = [Fin 3, Fin 3, Fin 3, Fin (3 / 2)]"
    by (intro nth_equalityI) (auto simp: less_Suc_eq numeral_eq_Suc)
  with out(1) show ?thesis by simp
qed

section \<open>Cyclic polynomial decay\<close>

lemma init_first_step:
  assumes "1 \<le> n"
  shows "\<exists>s rest. Schedule_init n = Inr s \<and> Schedules_init n = Inr s \<and> n_steps s = n \<and>
           steps s = Fin 0 # rest \<and> length (steps s) = nat n"
proof (cases "n = 1")
  case True
  then show ?thesis
    by (simp add: Schedule_init_def Schedules_init_def linspace_one)
next
  case False
  with assms have n: "1 < n" by simp
  then have "[0..<nat n] = 0 # [1..<nat n]"
    by (simp add: upt_conv_Cons)
  with n show ?thesis
    by (simp add: Schedule_init_def Schedules_init_def linspace_closed)
qed

text \<open>
  C10 (as amended). For every \<open>n \<ge> 1\<close>, in \<open>polynomial_decay(initial, end, power, cycle=True)\<close>
  of either class, \<open>steps[0]\<close> is 0, the horizon computed for element 0 is 0, and the
  quotient of the two is NaN (the division does not raise and nothing guards it);
  element 0 of the returned sequence is NaN when \<open>power\<close> is not 0, and is \<open>initial\<close> when
  \<open>power\<close> is 0, since any base to the power 0 is 1.
\<close>

theorem cycle_first_element:
  assumes "1 \<le> n"
  shows "\<exists>s. Schedule_init n = Inr s \<and> Schedules_init n = Inr s \<and>
           steps s ! 0 = Fin 0 \<and> cycle_horizon s ! 0 = Fin 0 \<and> cycle_quotient s ! 0 = NaN \<and>
           length (Schedule_polynomial_decay s a e p True) = nat n \<and>
           Schedule_polynomial_decay s a e p True ! 0 = (if p = 0 then Fin a else NaN) \<and>
           Schedules_polynomial_decay s a e p True ! 0 = (if p = 0 then Fin a else NaN)"
proof -
  from init_first_step [OF assms] obtain s rest where s:
    "Schedule_init n = Inr s" "Schedules_init n = Inr s" "n_steps s = n"
    "steps s = Fin 0 # rest" "length (steps s) = nat n"
    by blast
  have n0: "real_of_int n \<noteq> 0" using assms by simp
  have h: "cycle_horizon s = Fin 0 # map (\<lambda>x. fmul (Fin (real_of_int n))
      (np_ceil (fdiv x (Fin (real_of_int n))))) rest"
    using s(3,4) n0 by (simp add: cycle_horizon_def)
  have q: "cycle_quotient s ! 0 = NaN"
    using s(4) h by (simp add: cycle_quotient_def)
  have lq: "length (cycle_quotient s) = nat n"
    using s(5) by (simp add: cycle_quotient_def cycle_horizon_def)
  then have pos: "0 < length (cycle_quotient s)"
    using assms by simp
  have base: "np_power (fsub (Fin 1) NaN) (Fin p) = (if p = 0 then Fin 1 else NaN)"
    by (simp add: np_power_def fsub_def)
  have v: "Schedule_polynomial_decay s a e p True ! 0 = (if p = 0 then Fin a else NaN)"
    using pos q base by (simp add: Schedule_polynomial_decay_def)
  have v': "Schedules_polynomial_decay s a e p True ! 0 = (if p = 0 then Fin a else NaN)"
    using pos q base by (simp add: Schedules_polynomial_decay_def)
  have len: "length (Schedule_polynomial_decay s a e p True) = nat n"
    using lq by (simp add: Schedule_polynomial_decay_def)
  show ?thesis
    using s(1,2,4) h q v v' len by (intro exI [of _ s]) simp
qed

theorem cycle_first_element_witness:
  "\<exists>s. Schedule_init 3 = Inr s \<and> cycle_horizon s ! 0 = Fin 0 \<and> cycle_quotient s ! 0 = NaN \<and>
     Schedule_polynomial_decay s 2 1 2 True ! 0 = NaN \<and>
     Schedule_polynomial_decay s 2 1 0 True ! 0 = Fin 2"
proof -
  from cycle_first_element [of 3 2 1 2] obtain s where s:
    "Schedule_init 3 = Inr s" "cycle_horizon s ! 0 = Fin 0" "cycle_quotient s ! 0 = NaN"
    "Schedule_polynomial_decay s 2 1 2 True ! 0 = NaN"
    by auto
  from cycle_first_element [of 3 2 1 0] s(1) have
    "Schedule_polynomial_decay s 2 1 0 True ! 0 = Fin 2"
    by auto
  with s show ?thesis by blast
qed

text \<open>
  With \<open>power = 0\<close> the element 0 is a number: on 3 steps,
  \<open>polynomial_decay(2, 1, 0, cycle=True)\<close> returns \<open>[2, 2, 2]\<close>.
\<close>

theorem cycle_power_zero_defined:
  "Schedule_run 3 (Polynomial_decay 2 1 0 True) = Inr [Fin 2, Fin 2, Fin 2]"
  unfolding Schedule_run_def Schedule_call.simps fst_conv by code_simp

section \<open>Outcome of piecewise constant decay\<close>













section \<open>Length of the returned sequence\<close>






end
